theory Spec2Isabelle
  imports Complex_Main
begin

section \<open>JavaScript values of the configuration module\<close>

text \<open>
  The module \<open>docusaurus.config.ts\<close> builds one object literal. Its values are strings,
  booleans, arrays and objects; an object literal is kept as the list of its
  \<open>key: value\<close> entries in source order.
\<close>

datatype jsval =
    Str string
  | Bool bool
  | Arr "jsval list"
  | Obj "(string \<times> jsval) list"

text \<open>
  Property read \<open>v.k\<close>. Where an object literal repeats a key the later entry is the
  one a read sees, hence the reversal; a read on a non-object yields nothing.
\<close>

fun get_prop :: "string \<Rightarrow> jsval \<Rightarrow> jsval option" where
  "get_prop k (Obj kvs) = map_of (rev kvs) k"
| "get_prop k _ = None"

text \<open>Index read \<open>v[i]\<close>; out of range (or not an array) yields nothing.\<close>

fun get_index :: "nat \<Rightarrow> jsval \<Rightarrow> jsval option" where
  "get_index i (Arr vs) = (if i < length vs then Some (vs ! i) else None)"
| "get_index i _ = None"

text \<open>A chain of reads \<open>v.k1[i].k2...\<close>: each step is a property read or an index read.\<close>

datatype step = Key string | Idx nat

fun get_step :: "step \<Rightarrow> jsval \<Rightarrow> jsval option" where
  "get_step (Key k) v = get_prop k v"
| "get_step (Idx i) v = get_index i v"

fun lookup :: "step list \<Rightarrow> jsval \<Rightarrow> jsval option" where
  "lookup [] v = Some v"
| "lookup (st # sts) v = (case get_step st v of None \<Rightarrow> None | Some w \<Rightarrow> lookup sts w)"

text \<open>
  The object \<open>v\<close> with the value of its property \<open>k\<close> replaced, and the same along a
  chain of property names; an object without the property is returned as it is.
\<close>

fun set_prop :: "string \<Rightarrow> jsval \<Rightarrow> jsval \<Rightarrow> jsval" where
  "set_prop k x (Obj kvs) = Obj (map (\<lambda>(k', w). if k' = k then (k', x) else (k', w)) kvs)"
| "set_prop k x v = v"

fun put_path :: "string list \<Rightarrow> jsval \<Rightarrow> jsval \<Rightarrow> jsval" where
  "put_path [] x v = x"
| "put_path (k # ks) x v =
     (case get_prop k v of None \<Rightarrow> v | Some w \<Rightarrow> set_prop k (put_path ks x w) v)"

text \<open>The property names of an object literal, in source order.\<close>

fun keys_of :: "jsval \<Rightarrow> string list" where
  "keys_of (Obj kvs) = map fst kvs"
| "keys_of _ = []"

text \<open>The property names written at every depth of a value, in source order.\<close>

fun all_keys :: "jsval \<Rightarrow> string list" where
  "all_keys (Obj kvs) = concat (map (\<lambda>kv. fst kv # all_keys (snd kv)) kvs)"
| "all_keys (Arr vs) = concat (map all_keys vs)"
| "all_keys (Str s) = []"
| "all_keys (Bool b) = []"

text \<open>
  The framework's fields that choose how a build-time failure is handled are named
  \<open>on...\<close> (\<open>onBrokenLinks\<close>, \<open>onBrokenMarkdownLinks\<close>, ...).
\<close>

definition policy_name :: "string \<Rightarrow> bool" where
  "policy_name k = (take 2 k = ''on'')"

text \<open>The elements of an array value (nothing for any other value).\<close>

fun elems :: "jsval \<Rightarrow> jsval list" where
  "elems (Arr vs) = vs"
| "elems _ = []"

definition has_prop :: "string \<Rightarrow> jsval \<Rightarrow> bool" where
  "has_prop k v = (get_prop k v \<noteq> None)"

text \<open>A string, array or object with something in it; a boolean always counts.\<close>

fun non_empty :: "jsval \<Rightarrow> bool" where
  "non_empty (Str s) = (s \<noteq> [])"
| "non_empty (Bool b) = True"
| "non_empty (Arr vs) = (vs \<noteq> [])"
| "non_empty (Obj kvs) = (kvs \<noteq> [])"

definition present_non_empty :: "step list \<Rightarrow> jsval \<Rightarrow> bool" where
  "present_non_empty p v = (case lookup p v of None \<Rightarrow> False | Some w \<Rightarrow> non_empty w)"

section \<open>The evaluation environment\<close>

text \<open>
  What the module reads from outside itself: the two theme objects imported from
  \<open>prism-react-renderer\<close> (\<open>prismThemes.github\<close>, \<open>prismThemes.dracula\<close>) and the
  result of \<open>new Date().getFullYear()\<close> at the instant of evaluation.
\<close>

record env =
  prism_github :: jsval
  prism_dracula :: jsval
  full_year :: int

section \<open>Number to string conversion of the template literal\<close>

definition digit_char :: "nat \<Rightarrow> char" where
  "digit_char d = ''0123456789'' ! (d mod 10)"

fun digits :: "nat \<Rightarrow> string" where
  "digits n = (if n < 10 then [digit_char n] else digits (n div 10) @ [digit_char (n mod 10)])"

declare digits.simps [simp del]

text \<open>\<open>String(n)\<close> for an integral number \<open>n\<close>: decimal digits, a leading minus sign below zero.\<close>

definition number_to_string :: "int \<Rightarrow> string" where
  "number_to_string n = (if n < 0 then CHR ''-'' # digits (nat (- n)) else digits (nat n))"

text \<open>Reading a decimal numeral back, to tell two renderings apart.\<close>

definition digit_val :: "char \<Rightarrow> nat" where
  "digit_val c = of_char c - 48"

definition number_of_digits :: "string \<Rightarrow> nat" where
  "number_of_digits s = foldl (\<lambda>a c. 10 * a + digit_val c) 0 s"

section \<open>The configuration object\<close>

text \<open>\<open>themeConfig.navbar.items\<close>, lines 72 to 133.\<close>

definition navbar_items :: "jsval list" where
  "navbar_items =
    [ Obj [(''type'', Str ''docSidebar''), (''sidebarId'', Str ''Concepts''),
           (''position'', Str ''left''), (''label'', Str ''Concepts'')],
      Obj [(''type'', Str ''docSidebar''), (''sidebarId'', Str ''Protocol''),
           (''position'', Str ''left''), (''label'', Str ''Protocol'')],
      Obj [(''type'', Str ''docSidebar''), (''sidebarId'', Str ''SDK''),
           (''position'', Str ''left''), (''label'', Str ''SDK'')],
      Obj [(''type'', Str ''docSidebar''), (''sidebarId'', Str ''TechnicalReference''),
           (''position'', Str ''left''), (''label'', Str ''Technical Reference'')],
      Obj [(''href'', Str ''https://console.superfluid.finance/''),
           (''position'', Str ''right''), (''label'', Str ''Console'')],
      Obj [(''href'', Str ''https://github.com/superfluid-finance''),
           (''position'', Str ''right''), (''label'', Str ''Github'')],
      Obj [(''href'', Str ''https://discord.gg/pPzPEDMVua''),
           (''position'', Str ''right''), (''label'', Str ''Discord'')],
      Obj [(''type'', Str ''dropdown''), (''label'', Str ''Version''),
           (''position'', Str ''right''),
           (''items'', Arr
             [ Obj [(''label'', Str ''Current''), (''href'', Str ''#'')],
               Obj [(''label'', Str ''Legacy''), (''href'', Str ''https://superfluid.gitbook.io/'')]
             ])]
    ]"

text \<open>\<open>themeConfig.footer.links\<close>, lines 137 to 197.\<close>

definition footer_links :: "jsval list" where
  "footer_links =
    [ Obj [(''title'', Str ''Docs''),
           (''items'', Arr
             [ Obj [(''label'', Str ''Concepts''), (''to'', Str ''/docs/concepts/superfluid'')],
               Obj [(''label'', Str ''Protocol''), (''to'', Str ''/docs/protocol/quickstart'')],
               Obj [(''label'', Str ''SDK''), (''to'', Str ''/docs/sdk/overview'')],
               Obj [(''label'', Str ''Technical Reference''),
                    (''to'', Str ''/docs/technical-reference/intro'')]
             ])],
      Obj [(''title'', Str ''Community''),
           (''items'', Arr
             [ Obj [(''label'', Str ''Github''), (''href'', Str ''https://github.com/superfluid-finance'')],
               Obj [(''label'', Str ''Discord''), (''href'', Str ''https://discord.gg/pPzPEDMVua'')],
               Obj [(''label'', Str ''X/Twitter''),
                    (''href'', Str ''https://twitter.com/intent/follow?screen_name=Superfluid_HQ'')]
             ])],
      Obj [(''title'', Str ''More''),
           (''items'', Arr
             [ Obj [(''label'', Str ''About Us''), (''href'', Str ''https://www.superfluid.finance/about'')],
               Obj [(''label'', Str ''Blog''), (''href'', Str ''https://www.superfluid.finance/blog'')],
               Obj [(''label'', Str ''Terms of Use''), (''href'', Str ''https://www.superfluid.finance/terms'')],
               Obj [(''label'', Str ''Privacy Policy''),
                    (''href'', Str ''https://www.iubenda.com/privacy-policy/34415583/legal'')]
             ])]
    ]"

text \<open>
  The template literal of line 198. The copyright sign U+00A9 is the one character
  \<open>CHR 0xA9\<close>.
\<close>

definition copyright :: "int \<Rightarrow> string" where
  "copyright year =
     ''Copyright '' @ [CHR 0xA9] @ '' '' @ number_to_string year
       @ '' Superfluid Finance LTD. Built with Docusaurus.''"

definition footer :: "env \<Rightarrow> jsval" where
  "footer e =
     Obj [(''style'', Str ''dark''),
          (''links'', Arr footer_links),
          (''copyright'', Str (copyright (full_year e)))]"

text \<open>\<open>themeConfig.algolia\<close>, lines 205 to 233.\<close>

definition algolia :: jsval where
  "algolia =
     Obj [(''appId'', Str ''O3JEVRIQUM''),
          (''apiKey'', Str ''8de88a77f0d3ae7ea04ea6e10bd6b52c''),
          (''indexName'', Str ''v2-omega''),
          (''contextualSearch'', Bool False),
          (''searchPagePath'', Str ''search'')]"

text \<open>\<open>themeConfig.markprompt\<close>, lines 234 to 248.\<close>

definition markprompt :: jsval where
  "markprompt =
     Obj [(''projectKey'', Str ''sk_test_ubCqOlHANKE1H1teDc6ykbIV2asfKklN''),
          (''trigger'', Obj [(''floating'', Bool False)]),
          (''search'', Obj
             [(''enabled'', Bool True),
              (''provider'', Obj
                 [(''name'', Str ''algolia''),
                  (''apiKey'', Str ''8de88a77f0d3ae7ea04ea6e10bd6b52c''),
                  (''appId'', Str ''O3JEVRIQUM''),
                  (''indexName'', Str ''v2-omega'')])])]"

text \<open>\<open>themeConfig.plugins\<close>, lines 249 to 262.\<close>

definition plugins :: "jsval list" where
  "plugins =
    [ Arr [Str ''@saucelabs/theme-github-codeblock'', Obj []],
      Arr [Str ''@docusaurus/plugin-client-redirects'',
           Obj [(''redirects'', Arr
                  [ Obj [(''to'', Str ''/docs/concepts/superfluid''),
                         (''from'', Str ''/superfluid/protocol-overview/in-depth-overview'')]
                  ])]]
    ]"

text \<open>\<open>themeConfig\<close>, lines 58 to 263.\<close>

definition themeConfig :: "env \<Rightarrow> jsval" where
  "themeConfig e =
     Obj [(''colorMode'', Obj [(''defaultMode'', Str ''dark''),
                               (''disableSwitch'', Bool False),
                               (''respectPrefersColorScheme'', Bool True)]),
          (''image'', Str ''img/docusaurus-social-card.png''),
          (''navbar'', Obj [(''title'', Str ''Docs''),
                            (''logo'', Obj [(''alt'', Str ''My Site Logo''),
                                            (''src'', Str ''img/logo-black.svg''),
                                            (''srcDark'', Str ''img/logo.svg'')]),
                            (''items'', Arr navbar_items)]),
          (''footer'', footer e),
          (''prism'', Obj [(''theme'', prism_github e),
                           (''darkTheme'', prism_dracula e),
                           (''additionalLanguages'', Arr [Str ''solidity''])]),
          (''algolia'', algolia),
          (''markprompt'', markprompt),
          (''plugins'', Arr plugins)]"

text \<open>\<open>presets\<close>, lines 33 to 56.\<close>

definition presets :: "jsval list" where
  "presets =
    [ Arr [Str ''classic'',
           Obj [(''docs'', Obj
                  [(''sidebarPath'', Str ''./sidebars.ts''),
                   (''editUrl'', Str
                      ''https://github.com/facebook/docusaurus/tree/main/packages/create-docusaurus/templates/shared/'')]),
                (''blog'', Obj
                  [(''showReadingTime'', Bool True),
                   (''editUrl'', Str
                      ''https://github.com/facebook/docusaurus/tree/main/packages/create-docusaurus/templates/shared/'')]),
                (''theme'', Obj [(''customCss'', Str ''./src/css/custom.css'')])]]
    ]"

text \<open>The object literal bound to \<open>config\<close>, lines 5 to 264.\<close>

definition config :: "env \<Rightarrow> jsval" where
  "config e =
     Obj [(''title'', Str ''Superfluid Docs''),
          (''tagline'', Str ''Docs but they hyper super fluid''),
          (''favicon'', Str ''img/favicon.ico''),
          (''themes'', Arr [Str ''@docusaurus/theme-live-codeblock'',
                            Str ''@markprompt/docusaurus-theme-search'']),
          (''url'', Str ''https://docs.superfluid.finance/''),
          (''baseUrl'', Str ''/''),
          (''organizationName'', Str ''facebook''),
          (''projectName'', Str ''docusaurus''),
          (''onBrokenLinks'', Str ''ignore''),
          (''onBrokenMarkdownLinks'', Str ''warn''),
          (''i18n'', Obj [(''defaultLocale'', Str ''en''),
                          (''locales'', Arr [Str ''en''])]),
          (''presets'', Arr presets),
          (''themeConfig'', themeConfig e)]"

section \<open>Evaluation of the module\<close>

text \<open>
  The module has two statements that run: the declaration \<open>const config = {...}\<close>
  (lines 5 to 264) and \<open>export default config\<close> (line 266). The state is the binding
  of \<open>config\<close> and the default export.
\<close>

datatype stmt = Const_config | Export_default

record module_state =
  config_binding :: "jsval option"
  default_export :: "jsval option"

fun exec_stmt :: "env \<Rightarrow> stmt \<Rightarrow> module_state \<Rightarrow> module_state" where
  "exec_stmt e Const_config s = s\<lparr>config_binding := Some (config e)\<rparr>"
| "exec_stmt e Export_default s = s\<lparr>default_export := config_binding s\<rparr>"

definition module_body :: "stmt list" where
  "module_body = [Const_config, Export_default]"

definition initial_state :: module_state where
  "initial_state = \<lparr>config_binding = None, default_export = None\<rparr>"

definition run :: "env \<Rightarrow> stmt list \<Rightarrow> module_state \<Rightarrow> module_state" where
  "run e stmts s = foldl (\<lambda>s st. exec_stmt e st s) s stmts"

text \<open>An environment to evaluate the module in: empty theme objects, the year 2024.\<close>

definition env_2024 :: env where
  "env_2024 = \<lparr>prism_github = Obj [], prism_dracula = Obj [], full_year = 2024\<rparr>"

text \<open>The same environment one year later.\<close>

definition env_2025 :: env where
  "env_2025 = \<lparr>prism_github = Obj [], prism_dracula = Obj [], full_year = 2025\<rparr>"

section \<open>The Distribution Pools page: how a member's share is determined\<close>

text \<open>
  The page describes the calculation in two steps (lines 309 to 325); the two formulas
  are images, so the rule is taken from the prose and from Examples 1 and 2 (lines 331
  to 340). A pool is the list of its members' units; the flow rate is a whole number
  of wei per second.

  Step 1, the flow rate per unit: the total flow rate divided by the total number of
  units, "calculated as an integer. If the result of the division is not an integer,
  the result is rounded down". The page speaks only of pools whose members hold units.
\<close>

definition flow_rate_per_unit :: "int \<Rightarrow> int \<Rightarrow> int" where
  "flow_rate_per_unit F U = F div U"

definition total_units :: "nat list \<Rightarrow> int" where
  "total_units members = int (sum_list members)"

text \<open>
  Step 2, the flow rate of a member: "We multiply the flow rate per unit by the number
  of units each member has".
\<close>

definition member_flow_rate :: "int \<Rightarrow> nat list \<Rightarrow> nat \<Rightarrow> int" where
  "member_flow_rate F members u = flow_rate_per_unit F (total_units members) * int u"

text \<open>
  Examples 1 and 2 of the page (lines 331 to 340) as the page states them: the total
  flow rate, the members' units, "the flow rate per unit is ..." and "... left
  undistributed".
\<close>

record pool_example =
  total_flow_rate :: int
  member_units :: "nat list"
  stated_per_unit :: int
  stated_undistributed :: int

definition example_1 :: pool_example where
  "example_1 = \<lparr>total_flow_rate = 100, member_units = replicate 3 1,
                 stated_per_unit = 33, stated_undistributed = 1\<rparr>"

definition example_2 :: pool_example where
  "example_2 = \<lparr>total_flow_rate = 100, member_units = replicate 200 1,
                 stated_per_unit = 0, stated_undistributed = 200\<rparr>"

section \<open>Navigation entries, plugins and redirects of a configuration\<close>

text \<open>The entries of the navigation bar, and the entries nested in one of them.\<close>

definition navbar_entries :: "jsval \<Rightarrow> jsval list" where
  "navbar_entries cfg =
     (case lookup [Key ''themeConfig'', Key ''navbar'', Key ''items''] cfg of
        None \<Rightarrow> [] | Some a \<Rightarrow> elems a)"

definition sub_entries :: "jsval \<Rightarrow> jsval list" where
  "sub_entries item = (case get_prop ''items'' item of None \<Rightarrow> [] | Some a \<Rightarrow> elems a)"

text \<open>A link target is an \<open>href\<close> (external) or a \<open>to\<close> (internal route).\<close>

definition has_link_target :: "jsval \<Rightarrow> bool" where
  "has_link_target item = (has_prop ''href'' item \<or> has_prop ''to'' item)"

text \<open>The entries whose \<open>type\<close> reads as given (\<open>None\<close>: the entries without one).\<close>

definition entries_of_type :: "jsval option \<Rightarrow> jsval list \<Rightarrow> jsval list" where
  "entries_of_type t items = filter (\<lambda>item. get_prop ''type'' item = t) items"

text \<open>
  The entries of \<open>themeConfig.plugins\<close>, each a pair \<open>[name, options]\<close>, and the
  redirects declared by the entries named \<open>@docusaurus/plugin-client-redirects\<close>.
\<close>

definition plugin_entries :: "jsval \<Rightarrow> jsval list" where
  "plugin_entries cfg =
     (case lookup [Key ''themeConfig'', Key ''plugins''] cfg of None \<Rightarrow> [] | Some a \<Rightarrow> elems a)"

definition redirects :: "jsval \<Rightarrow> jsval list" where
  "redirects cfg =
     concat (map (\<lambda>p. if get_index 0 p = Some (Str ''@docusaurus/plugin-client-redirects'')
                        then (case lookup [Idx 1, Key ''redirects''] p of
                                None \<Rightarrow> [] | Some a \<Rightarrow> elems a)
                        else [])
                 (plugin_entries cfg))"

section \<open>Reading the configuration\<close>

lemma config_i18n:
  "get_prop ''i18n'' (config e) = Some (Obj [(''defaultLocale'', Str ''en''), (''locales'', Arr [Str ''en''])])"
  by (simp add: config_def)

lemma config_themeConfig: "get_prop ''themeConfig'' (config e) = Some (themeConfig e)"
  by (simp add: config_def)

lemma themeConfig_navbar_items:
  "lookup [Key ''navbar'', Key ''items''] (themeConfig e) = Some (Arr navbar_items)"
  by (simp add: themeConfig_def)

lemma themeConfig_footer: "get_prop ''footer'' (themeConfig e) = Some (footer e)"
  by (simp add: themeConfig_def)

lemma themeConfig_algolia: "get_prop ''algolia'' (themeConfig e) = Some algolia"
  by (simp add: themeConfig_def)

lemma themeConfig_markprompt: "get_prop ''markprompt'' (themeConfig e) = Some markprompt"
  by (simp add: themeConfig_def)

lemma themeConfig_plugins: "get_prop ''plugins'' (themeConfig e) = Some (Arr plugins)"
  by (simp add: themeConfig_def)

lemma themeConfig_colorMode:
  "get_prop ''colorMode'' (themeConfig e) =
     Some (Obj [(''defaultMode'', Str ''dark''), (''disableSwitch'', Bool False),
                (''respectPrefersColorScheme'', Bool True)])"
  by (simp add: themeConfig_def)

lemma config_copyright:
  "lookup [Key ''themeConfig'', Key ''footer'', Key ''copyright''] (config e)
     = Some (Str (copyright (full_year e)))"
  by (simp add: config_themeConfig themeConfig_footer) (simp add: footer_def)

lemma navbar_entries_config: "navbar_entries (config e) = navbar_items"
  using themeConfig_navbar_items [of e] by (simp add: navbar_entries_def config_themeConfig)

section \<open>The year in the copyright line\<close>

lemma digit_char_code: "(of_char (digit_char d) :: nat) = 48 + d mod 10"
proof -
  have "d mod 10 < 10" by simp
  then consider "d mod 10 = 0" | "d mod 10 = 1" | "d mod 10 = 2" | "d mod 10 = 3" | "d mod 10 = 4"
    | "d mod 10 = 5" | "d mod 10 = 6" | "d mod 10 = 7" | "d mod 10 = 8" | "d mod 10 = 9"
    by atomize_elim arith
  then show ?thesis
    by cases (simp_all add: digit_char_def)
qed

lemma digit_val_digit_char: "digit_val (digit_char d) = d mod 10"
  by (simp add: digit_val_def digit_char_code)

lemma digit_char_not_minus: "digit_char d \<noteq> CHR ''-''"
proof
  assume "digit_char d = CHR ''-''"
  then have "(of_char (digit_char d) :: nat) = of_char CHR ''-''" by simp
  then show False by (simp add: digit_char_code)
qed

lemma number_of_digits_digits: "number_of_digits (digits n) = n"
proof (induction n rule: digits.induct)
  case (1 n)
  show ?case
  proof (cases "n < 10")
    case True
    then show ?thesis
      by (subst digits.simps) (simp add: number_of_digits_def digit_val_digit_char)
  next
    case False
    with 1 have "number_of_digits (digits (n div 10)) = n div 10" by simp
    with False show ?thesis
      by (subst digits.simps) (simp add: number_of_digits_def digit_val_digit_char)
  qed
qed

lemma digits_inj: "digits a = digits b \<Longrightarrow> a = b"
  by (metis number_of_digits_digits)

lemma digits_head: "digits n \<noteq> [] \<and> hd (digits n) \<noteq> CHR ''-''"
proof (induction n rule: digits.induct)
  case (1 n)
  show ?case
  proof (cases "n < 10")
    case True
    then show ?thesis
      by (subst (1 2) digits.simps) (simp add: digit_char_not_minus)
  next
    case False
    with 1 have "digits (n div 10) \<noteq> [] \<and> hd (digits (n div 10)) \<noteq> CHR ''-''" by simp
    with False show ?thesis
      by (subst (1 2) digits.simps) simp
  qed
qed

lemma number_to_string_inj: "number_to_string a = number_to_string b \<Longrightarrow> a = b"
proof -
  assume eq: "number_to_string a = number_to_string b"
  have neg_pos: "CHR ''-'' # digits m \<noteq> digits n" for m n
    using digits_head [of n] by (metis list.sel(1))
  show ?thesis
  proof (cases "a < 0"; cases "b < 0")
    assume "a < 0" "b < 0"
    with eq have "nat (- a) = nat (- b)" by (simp add: number_to_string_def digits_inj)
    with \<open>a < 0\<close> \<open>b < 0\<close> show ?thesis by simp
  next
    assume "a < 0" "\<not> b < 0"
    with eq neg_pos show ?thesis by (simp add: number_to_string_def)
  next
    assume "\<not> a < 0" "b < 0"
    with eq neg_pos [of "nat (- b)" "nat a"] show ?thesis by (simp add: number_to_string_def)
  next
    assume "\<not> a < 0" "\<not> b < 0"
    with eq have "nat a = nat b" by (simp add: number_to_string_def digits_inj)
    with \<open>\<not> a < 0\<close> \<open>\<not> b < 0\<close> show ?thesis by simp
  qed
qed

lemma copyright_inj: "copyright a = copyright b \<Longrightarrow> a = b"
  by (simp add: copyright_def number_to_string_inj)

section \<open>The claims\<close>

text \<open>
  C1 (amended). The configuration object does choose how two build-time failures are
  handled: \<open>onBrokenLinks\<close> is \<open>'ignore'\<close> and \<open>onBrokenMarkdownLinks\<close> is
  \<open>'warn'\<close>. These two are the only property names starting with \<open>on\<close> that the
  object literal writes, at the top level and at every depth; any other could only
  come from inside the two imported theme objects.
\<close>

theorem C1_failure_policy_fields: "get_prop ''onBrokenLinks'' (config e) = Some (Str ''ignore'')
  \<and> get_prop ''onBrokenMarkdownLinks'' (config e) = Some (Str ''warn'')
  \<and> filter policy_name (keys_of (config e)) = [''onBrokenLinks'', ''onBrokenMarkdownLinks'']
  \<and> filter policy_name (all_keys (config e))
       = [''onBrokenLinks'', ''onBrokenMarkdownLinks'']
         @ filter policy_name (all_keys (prism_github e))
         @ filter policy_name (all_keys (prism_dracula e))"
  by (simp add: config_def themeConfig_def presets_def plugins_def markprompt_def algolia_def
        footer_def footer_links_def navbar_items_def policy_name_def)

text \<open>
  C1 as stated (no field of the configuration chooses how a failure is handled) fails:
  both policy fields are present.
\<close>

theorem C1_counterexample:
  "has_prop ''onBrokenLinks'' (config env_2024) \<and> has_prop ''onBrokenMarkdownLinks'' (config env_2024)"
  by (simp add: has_prop_def config_def)

text \<open>
  C2 (amended). Apart from the footer copyright line the configuration is static
  data: with the same imported theme objects, the configuration of a second
  evaluation is that of the first with only \<open>themeConfig.footer.copyright\<close> replaced,
  that line is the template text around the decimal year of the evaluation, and two
  evaluations yield identical configurations exactly when they fall in the same year.
\<close>

theorem C2_static_except_copyright_year:
  assumes "prism_github e1 = prism_github e2" and "prism_dracula e1 = prism_dracula e2"
  shows "config e2 = put_path [''themeConfig'', ''footer'', ''copyright'']
                       (Str (copyright (full_year e2))) (config e1)
       \<and> lookup [Key ''themeConfig'', Key ''footer'', Key ''copyright''] (config e1)
           = Some (Str (copyright (full_year e1)))
       \<and> (config e1 = config e2) = (full_year e1 = full_year e2)"
proof (intro conjI)
  show put: "config e2 = put_path [''themeConfig'', ''footer'', ''copyright'']
                       (Str (copyright (full_year e2))) (config e1)"
    using assms
    apply (simp add: config_themeConfig themeConfig_footer)
    apply (simp add: footer_def)
    apply (simp add: themeConfig_def config_def footer_def)
    done
  show "lookup [Key ''themeConfig'', Key ''footer'', Key ''copyright''] (config e1)
           = Some (Str (copyright (full_year e1)))"
    by (rule config_copyright)
  show "(config e1 = config e2) = (full_year e1 = full_year e2)"
  proof
    assume "config e1 = config e2"
    then have "copyright (full_year e1) = copyright (full_year e2)"
      using config_copyright [of e1] config_copyright [of e2] by simp
    then show "full_year e1 = full_year e2" by (rule copyright_inj)
  next
    assume "full_year e1 = full_year e2"
    with assms show "config e1 = config e2"
      by (simp add: config_def themeConfig_def footer_def)
  qed
qed

text \<open>
  An instance: evaluations in 2024 and in 2025.
\<close>

theorem C2_witness: "prism_github env_2024 = prism_github env_2025
   \<and> prism_dracula env_2024 = prism_dracula env_2025
   \<and> config env_2025
       = put_path [''themeConfig'', ''footer'', ''copyright''] (Str (copyright 2025)) (config env_2024)
   \<and> lookup [Key ''themeConfig'', Key ''footer'', Key ''copyright''] (config env_2024)
       = Some (Str (copyright 2024))
   \<and> config env_2024 \<noteq> config env_2025"
proof -
  have a: "prism_github env_2024 = prism_github env_2025"
    and b: "prism_dracula env_2024 = prism_dracula env_2025"
    by (simp_all add: env_2024_def env_2025_def)
  have y1: "full_year env_2024 = 2024" and y2: "full_year env_2025 = 2025"
    by (simp_all add: env_2024_def env_2025_def)
  have ne: "(2024::int) \<noteq> 2025" by simp
  from C2_static_except_copyright_year [OF a b] a b ne show ?thesis
    unfolding y1 y2 by blast
qed

text \<open>
  C2 as stated (any two evaluations yield identical configurations) fails across a
  change of year.
\<close>

theorem C2_counterexample: "config env_2024 \<noteq> config env_2025"
proof
  assume "config env_2024 = config env_2025"
  then have "copyright (full_year env_2024) = copyright (full_year env_2025)"
    using config_copyright [of env_2024] config_copyright [of env_2025] by simp
  then have "full_year env_2024 = full_year env_2025" by (rule copyright_inj)
  then show False by (simp add: env_2024_def env_2025_def)
qed

text \<open>
  C3. The flow rate per unit of the page is integer division rounded down: for a
  total flow rate \<open>F \<ge> 0\<close> and total units \<open>U > 0\<close> it is the floor of the
  quotient \<open>F / U\<close>; 100 over 3 units gives 33, 100 over 200 units gives 0.
\<close>

theorem C3_flow_rate_per_unit_floor: "0 \<le> F \<Longrightarrow> 0 < U \<Longrightarrow>
   flow_rate_per_unit F U = \<lfloor>real_of_int F / real_of_int U\<rfloor>
   \<and> flow_rate_per_unit 100 3 = 33 \<and> flow_rate_per_unit 100 200 = 0"
  by (simp add: flow_rate_per_unit_def floor_divide_of_int_eq)

text \<open>
  An instance: a flow rate of 7 over 2 units.
\<close>

theorem C3_witness: "(0::int) \<le> 7 \<and> (0::int) < 2 \<and> flow_rate_per_unit 7 2 = 3
   \<and> flow_rate_per_unit 100 3 = 33 \<and> flow_rate_per_unit 100 200 = 0"
  using C3_flow_rate_per_unit_floor [of 7 2] by simp

text \<open>
  C4. The page's Example 2 against the page's two steps. With a total flow rate of
  100 and 200 one-unit members the flow rate per unit is 0, as the page states, each
  member's flow rate is 0, and \<open>F - U * floor (F / U)\<close> is 100, the whole flow; the
  page states 200 left undistributed, more than the total flow rate. Example 1 states
  1, which is \<open>100 - 3 * 33\<close>.
\<close>

theorem C4_example_2_remainder: "total_units (member_units example_2) = 200
   \<and> flow_rate_per_unit (total_flow_rate example_2) (total_units (member_units example_2))
       = stated_per_unit example_2
   \<and> member_flow_rate (total_flow_rate example_2) (member_units example_2) 1 = 0
   \<and> sum_list (map (member_flow_rate (total_flow_rate example_2) (member_units example_2))
                 (member_units example_2)) = 0
   \<and> total_flow_rate example_2
        - total_units (member_units example_2)
          * flow_rate_per_unit (total_flow_rate example_2) (total_units (member_units example_2))
       = 100
   \<and> stated_undistributed example_2 = 200
   \<and> total_flow_rate example_2 < stated_undistributed example_2
   \<and> total_flow_rate example_1
        - total_units (member_units example_1)
          * flow_rate_per_unit (total_flow_rate example_1) (total_units (member_units example_1))
       = stated_undistributed example_1"
  by (simp add: example_1_def example_2_def total_units_def flow_rate_per_unit_def
        member_flow_rate_def sum_list_replicate)

text \<open>
  C5 (amended). The navigation bar has eight entries, each with a label and a
  position: three without a \<open>type\<close>, each with an \<open>href\<close>; four \<open>docSidebar\<close>
  entries, each with a \<open>sidebarId\<close> and neither \<open>href\<close> nor \<open>to\<close>; and one
  \<open>dropdown\<close> entry with neither \<open>href\<close> nor \<open>to\<close> of its own but two nested
  entries, each with a label and an \<open>href\<close> and no position.
\<close>

theorem C5_navbar_entry_shape: "length (navbar_entries (config e)) = 8
   \<and> length (entries_of_type None (navbar_entries (config e))) = 3
   \<and> length (entries_of_type (Some (Str ''docSidebar'')) (navbar_entries (config e))) = 4
   \<and> length (entries_of_type (Some (Str ''dropdown'')) (navbar_entries (config e))) = 1
   \<and> (\<forall>item \<in> set (navbar_entries (config e)).
         has_prop ''label'' item \<and> has_prop ''position'' item)
   \<and> (\<forall>item \<in> set (entries_of_type None (navbar_entries (config e))).
         has_prop ''href'' item)
   \<and> (\<forall>item \<in> set (entries_of_type (Some (Str ''docSidebar'')) (navbar_entries (config e))).
         has_prop ''sidebarId'' item \<and> \<not> has_link_target item)
   \<and> (\<forall>item \<in> set (entries_of_type (Some (Str ''dropdown'')) (navbar_entries (config e))).
         \<not> has_link_target item \<and> length (sub_entries item) = 2
       \<and> (\<forall>c \<in> set (sub_entries item).
             has_prop ''label'' c \<and> has_prop ''href'' c \<and> \<not> has_prop ''position'' c))"
  by (simp add: navbar_entries_config navbar_items_def entries_of_type_def has_prop_def
        has_link_target_def sub_entries_def)

text \<open>
  An instance: the dropdown entry and its second nested entry, the first plain link
  and the first \<open>docSidebar\<close> entry.
\<close>

theorem C5_witness: "navbar_entries (config env_2024) ! 7 \<in> set (navbar_entries (config env_2024))
   \<and> has_prop ''label'' (navbar_entries (config env_2024) ! 7)
   \<and> has_prop ''position'' (navbar_entries (config env_2024) ! 7)
   \<and> navbar_entries (config env_2024) ! 4 \<in> set (entries_of_type None (navbar_entries (config env_2024)))
   \<and> has_prop ''href'' (navbar_entries (config env_2024) ! 4)
   \<and> navbar_entries (config env_2024) ! 0
        \<in> set (entries_of_type (Some (Str ''docSidebar'')) (navbar_entries (config env_2024)))
   \<and> has_prop ''sidebarId'' (navbar_entries (config env_2024) ! 0)
   \<and> navbar_entries (config env_2024) ! 7
        \<in> set (entries_of_type (Some (Str ''dropdown'')) (navbar_entries (config env_2024)))
   \<and> sub_entries (navbar_entries (config env_2024) ! 7) ! 1
        \<in> set (sub_entries (navbar_entries (config env_2024) ! 7))
   \<and> has_prop ''href'' (sub_entries (navbar_entries (config env_2024) ! 7) ! 1)"
proof -
  have m7: "navbar_entries (config env_2024) ! 7 \<in> set (navbar_entries (config env_2024))"
    by (simp add: navbar_entries_config navbar_items_def)
  have m4: "navbar_entries (config env_2024) ! 4
               \<in> set (entries_of_type None (navbar_entries (config env_2024)))"
    by (simp add: navbar_entries_config navbar_items_def entries_of_type_def)
  have m0: "navbar_entries (config env_2024) ! 0
               \<in> set (entries_of_type (Some (Str ''docSidebar'')) (navbar_entries (config env_2024)))"
    by (simp add: navbar_entries_config navbar_items_def entries_of_type_def)
  have d7: "navbar_entries (config env_2024) ! 7
               \<in> set (entries_of_type (Some (Str ''dropdown'')) (navbar_entries (config env_2024)))"
    by (simp add: navbar_entries_config navbar_items_def entries_of_type_def)
  have sub: "sub_entries (navbar_entries (config env_2024) ! 7) ! 1
               \<in> set (sub_entries (navbar_entries (config env_2024) ! 7))"
    by (simp add: navbar_entries_config navbar_items_def sub_entries_def)
  from C5_navbar_entry_shape [of env_2024] m7 m4 m0 d7 sub show ?thesis by blast
qed

text \<open>
  C5 as stated (every navigation entry has a label, a link target and a position)
  fails: the first of the eight entries, a \<open>docSidebar\<close>, has no link target, and the
  first entry nested in the dropdown has no position.
\<close>

theorem C5_counterexample: "length (navbar_entries (config env_2024)) = 8
   \<and> \<not> has_link_target (navbar_entries (config env_2024) ! 0)
   \<and> \<not> has_prop ''position'' (sub_entries (navbar_entries (config env_2024) ! 7) ! 0)"
  by (simp add: navbar_entries_config navbar_items_def has_prop_def has_link_target_def sub_entries_def)

text \<open>
  C6 (amended). The configuration declares the described categories of data, each
  present and non-empty under \<open>themeConfig\<close>: the navbar items, the footer link
  groups, the color-mode setting, the search provider's application ID, API key and
  index name, and the plugin list. It declares more than those: its top-level
  properties are exactly the thirteen listed, and the properties of \<open>themeConfig\<close>
  exactly the eight listed.
\<close>

theorem C6_declared_categories_present: "present_non_empty [Key ''themeConfig'', Key ''navbar'', Key ''items''] (config e)
   \<and> present_non_empty [Key ''themeConfig'', Key ''footer'', Key ''links''] (config e)
   \<and> present_non_empty [Key ''themeConfig'', Key ''colorMode''] (config e)
   \<and> present_non_empty [Key ''themeConfig'', Key ''algolia'', Key ''appId''] (config e)
   \<and> present_non_empty [Key ''themeConfig'', Key ''algolia'', Key ''apiKey''] (config e)
   \<and> present_non_empty [Key ''themeConfig'', Key ''algolia'', Key ''indexName''] (config e)
   \<and> present_non_empty [Key ''themeConfig'', Key ''plugins''] (config e)
   \<and> keys_of (config e)
       = [''title'', ''tagline'', ''favicon'', ''themes'', ''url'', ''baseUrl'',
          ''organizationName'', ''projectName'', ''onBrokenLinks'', ''onBrokenMarkdownLinks'',
          ''i18n'', ''presets'', ''themeConfig'']
   \<and> get_prop ''themeConfig'' (config e) = Some (themeConfig e)
   \<and> keys_of (themeConfig e)
       = [''colorMode'', ''image'', ''navbar'', ''footer'', ''prism'', ''algolia'',
          ''markprompt'', ''plugins'']"
proof -
  have seven: "present_non_empty [Key ''themeConfig'', Key ''navbar'', Key ''items''] (config e)
   \<and> present_non_empty [Key ''themeConfig'', Key ''footer'', Key ''links''] (config e)
   \<and> present_non_empty [Key ''themeConfig'', Key ''colorMode''] (config e)
   \<and> present_non_empty [Key ''themeConfig'', Key ''algolia'', Key ''appId''] (config e)
   \<and> present_non_empty [Key ''themeConfig'', Key ''algolia'', Key ''apiKey''] (config e)
   \<and> present_non_empty [Key ''themeConfig'', Key ''algolia'', Key ''indexName''] (config e)
   \<and> present_non_empty [Key ''themeConfig'', Key ''plugins''] (config e)"
    using themeConfig_navbar_items [of e]
    by (simp add: present_non_empty_def config_themeConfig themeConfig_footer themeConfig_algolia
          themeConfig_plugins themeConfig_colorMode)
       (simp add: footer_def footer_links_def algolia_def plugins_def navbar_items_def)
  have top: "keys_of (config e)
       = [''title'', ''tagline'', ''favicon'', ''themes'', ''url'', ''baseUrl'',
          ''organizationName'', ''projectName'', ''onBrokenLinks'', ''onBrokenMarkdownLinks'',
          ''i18n'', ''presets'', ''themeConfig'']"
    by (simp add: config_def)
  have theme: "keys_of (themeConfig e)
       = [''colorMode'', ''image'', ''navbar'', ''footer'', ''prism'', ''algolia'',
          ''markprompt'', ''plugins'']"
    by (simp add: themeConfig_def)
  from seven top theme config_themeConfig [of e] show ?thesis by blast
qed

text \<open>
  C6 as stated (exactly the described categories) fails: the configuration also
  declares, among others, \<open>themes\<close>, \<open>i18n\<close> and \<open>presets\<close>, and under
  \<open>themeConfig\<close> an \<open>image\<close>, \<open>prism\<close> and \<open>markprompt\<close>.
\<close>

theorem C6_counterexample:
  "lookup [Key ''themes''] (config env_2024) \<noteq> None
   \<and> lookup [Key ''i18n''] (config env_2024) \<noteq> None
   \<and> lookup [Key ''presets''] (config env_2024) \<noteq> None
   \<and> lookup [Key ''themeConfig'', Key ''image''] (config env_2024) \<noteq> None
   \<and> lookup [Key ''themeConfig'', Key ''prism''] (config env_2024) \<noteq> None
   \<and> lookup [Key ''themeConfig'', Key ''markprompt''] (config env_2024) \<noteq> None"
  by (simp add: config_themeConfig) (simp add: config_def themeConfig_def)

text \<open>
  C7. Nothing in the module changes the configuration once it is constructed: after
  the declaration has run, at every later point of the module body the binding
  \<open>config\<close> holds the object literal's value, and that value is what is exported.
\<close>

theorem C7_config_not_mutated: "1 \<le> n \<Longrightarrow>
    config_binding (run e (take n module_body) initial_state) = Some (config e)
  \<and> default_export (run e module_body initial_state) = Some (config e)"
  by (cases n; cases "n - 1") (simp_all add: run_def module_body_def initial_state_def)

text \<open>
  An instance: the whole module body, evaluated in 2024.
\<close>

theorem C7_witness: "(1::nat) \<le> 2 \<and> config_binding (run env_2024 (take 2 module_body) initial_state) = Some (config env_2024)
  \<and> default_export (run env_2024 module_body initial_state) = Some (config env_2024)"
  using C7_config_not_mutated [of 2 env_2024] by simp

text \<open>
  C8. The two search integrations name the same backing index: the \<open>appId\<close>,
  \<open>apiKey\<close> and \<open>indexName\<close> of the \<open>algolia\<close> block are present and equal to
  those of the search provider of the \<open>markprompt\<close> block.
\<close>

theorem C8_search_integrations_agree: "lookup [Key ''themeConfig'', Key ''algolia'', Key ''appId''] (config e)
       = lookup [Key ''themeConfig'', Key ''markprompt'', Key ''search'', Key ''provider'', Key ''appId''] (config e)
   \<and> lookup [Key ''themeConfig'', Key ''algolia'', Key ''apiKey''] (config e)
       = lookup [Key ''themeConfig'', Key ''markprompt'', Key ''search'', Key ''provider'', Key ''apiKey''] (config e)
   \<and> lookup [Key ''themeConfig'', Key ''algolia'', Key ''indexName''] (config e)
       = lookup [Key ''themeConfig'', Key ''markprompt'', Key ''search'', Key ''provider'', Key ''indexName''] (config e)
   \<and> lookup [Key ''themeConfig'', Key ''algolia'', Key ''appId''] (config e) \<noteq> None
   \<and> lookup [Key ''themeConfig'', Key ''algolia'', Key ''apiKey''] (config e) \<noteq> None
   \<and> lookup [Key ''themeConfig'', Key ''algolia'', Key ''indexName''] (config e) \<noteq> None"
  by (simp add: config_themeConfig themeConfig_algolia themeConfig_markprompt)
     (simp add: algolia_def markprompt_def)

text \<open>
  C9. The client-redirects plugin declares exactly one redirect; its target is
  \<open>/docs/concepts/superfluid\<close>, which is the target of the footer's first link,
  labelled \<open>Concepts\<close>.
\<close>

theorem C9_redirect_target_is_linked: "\<exists>r c. redirects (config e) = [r]
     \<and> get_prop ''to'' r = Some (Str ''/docs/concepts/superfluid'')
     \<and> lookup [Key ''themeConfig'', Key ''footer'', Key ''links'', Idx 0, Key ''items'', Idx 0] (config e) = Some c
     \<and> get_prop ''label'' c = Some (Str ''Concepts'')
     \<and> get_prop ''to'' c = get_prop ''to'' r"
  by (simp add: redirects_def plugin_entries_def config_themeConfig themeConfig_plugins themeConfig_footer)
     (simp add: plugins_def footer_def footer_links_def)

text \<open>
  C10. The internationalization settings are self-consistent: the configured
  \<open>defaultLocale\<close> is \<open>'en'\<close> and it is one of the elements of the configured
  \<open>locales\<close> array.
\<close>

theorem C10_default_locale_in_locales:
  "\<exists>d ls. lookup [Key ''i18n'', Key ''defaultLocale''] (config e) = Some d
        \<and> lookup [Key ''i18n'', Key ''locales''] (config e) = Some ls
        \<and> d = Str ''en'' \<and> d \<in> set (elems ls)"
  by (simp add: config_i18n)

end
